theory Spec2Isabelle
  imports Main "HOL-Library.Multiset" "HOL-Library.Sublist" "HOL-Library.AList"
    "HOL-Library.Char_ord" "HOL-Library.List_Lexorder"
begin

section \<open>Data model\<close>

text \<open>
  The joined \<open>profiles\<close> object that \<open>getListItems\<close> and \<open>createItem\<close> select with
  every row (\<open>profiles:created_by (display_name, email)\<close>).
\<close>

record Profiles =
  display_name :: "string option"
  email :: "string option"

text \<open>
  A row of the \<open>items\<close> table as the client receives it (types/database.ts, \<open>Row\<close>).
  Nullable columns are options. The mapping code also reads \<open>deleted_at\<close> and
  \<open>profiles\<close>, which a row object may or may not carry. The quantity is kept as the
  text the service writes (\<open>sanitizeText(quantity)\<close> or null).
\<close>

record Row =
  row_id :: string
  list_id :: string
  row_text :: string
  is_bought :: bool
  is_deleted :: bool
  order_index :: int
  created_by :: "string option"
  created_at :: string
  updated_at :: string
  row_version :: int
  last_synced_at :: "string option"
  row_notes :: "string option"
  row_quantity :: "string option"
  is_important :: bool
  deleted_at :: "string option"
  profiles :: "Profiles option"

text \<open>The application model \<open>Item\<close> (types/models.ts); optional fields are options.\<close>

record Item =
  item_id :: string
  listId :: string
  item_text :: string
  isBought :: bool
  orderIndex :: int
  version :: int
  createdAt :: string
  updatedAt :: string
  deletedAt :: "string option"
  quantity :: "string option"
  item_notes :: "string option"
  createdBy :: "string option"
  createdByName :: "string option"

text \<open>
  JavaScript's \<open>x || y\<close> on nullable strings: the left operand wins unless it is
  null, undefined or the empty string. \<open>x || undefined\<close> is \<open>or_else x None\<close>.
\<close>

definition or_else :: "string option \<Rightarrow> string option \<Rightarrow> string option" where
  "or_else x y = (case x of None \<Rightarrow> y | Some s \<Rightarrow> (if s = [] then y else Some s))"

text \<open>\<open>row.profiles?.display_name\<close> and \<open>row.profiles?.email\<close>.\<close>

definition profile_display_name :: "Row \<Rightarrow> string option" where
  "profile_display_name r = (case profiles r of None \<Rightarrow> None | Some p \<Rightarrow> display_name p)"

definition profile_email :: "Row \<Rightarrow> string option" where
  "profile_email r = (case profiles r of None \<Rightarrow> None | Some p \<Rightarrow> email p)"

text \<open>
  The object literal that \<open>handleRealtimeChange\<close>, \<open>updateItem\<close> and \<open>toggleItem\<close>
  build from a row: eleven fields, with no \<open>createdBy\<close> and no \<open>createdByName\<close>.
\<close>

definition mappedItem :: "Row \<Rightarrow> Item" where
  "mappedItem r =
     \<lparr> item_id = row_id r, listId = list_id r, item_text = row_text r,
       isBought = is_bought r, orderIndex = order_index r, version = row_version r,
       createdAt = created_at r, updatedAt = updated_at r,
       deletedAt = or_else (deleted_at r) None,
       quantity = or_else (row_quantity r) None,
       item_notes = or_else (row_notes r) None,
       createdBy = None, createdByName = None \<rparr>"

text \<open>The literal of \<open>fetchItems\<close>: the same fields plus the two provenance fields.\<close>

definition mappedItems_entry :: "Row \<Rightarrow> Item" where
  "mappedItems_entry r =
     (mappedItem r)
       \<lparr> createdBy := or_else (created_by r) None,
         createdByName := or_else (profile_display_name r) (or_else (profile_email r) None) \<rparr>"

text \<open>The literal of \<open>addItem\<close>: the caller's name is the last fallback.\<close>

definition newItem :: "Row \<Rightarrow> string option \<Rightarrow> Item" where
  "newItem r currentUserName =
     (mappedItem r)
       \<lparr> createdBy := or_else (created_by r) None,
         createdByName :=
           or_else (profile_display_name r)
             (or_else (profile_email r) (or_else currentUserName None)) \<rparr>"

section \<open>Requests, replies and the hook's state\<close>

datatype Error = Error string

text \<open>The \<open>{ data, error }\<close> object every service method returns.\<close>

record 'a Reply =
  reply_data :: "'a option"
  reply_error :: "Error option"

record CreateItemData =
  cd_listId :: string
  cd_text :: string
  cd_quantity :: "string option"
  cd_notes :: "string option"
  cd_orderIndex :: nat

record UpdateItemData =
  ud_text :: "string option"
  ud_quantity :: "string option"
  ud_notes :: "string option"
  ud_isBought :: "bool option"
  ud_orderIndex :: "int option"

text \<open>The calls the hook makes on \<open>ItemsService\<close>; each one is a network request.\<close>

datatype Request =
    GetListItems string
  | CreateItem CreateItemData
  | UpdateItem string UpdateItemData
  | ToggleItemBought string bool
  | DeleteItem string
  | ReorderItems "(string \<times> nat) list"
  | ClearBoughtItems string

text \<open>
  What a synchronous stretch of the hook leaves behind besides the new state: service
  calls, and timers set with \<open>setTimeout\<close> (delay in milliseconds).
\<close>

datatype Effect = Call Request | SetTimeout nat

text \<open>
  The state of one \<open>useList(listId)\<close> instance: the bound list id, the three
  \<open>useState\<close> cells and the \<open>isPerformingOperation\<close> ref.
\<close>

record ListState =
  boundListId :: string
  items :: "Item list"
  loading :: bool
  error :: "Error option"
  isPerformingOperation :: bool

section \<open>fetchItems\<close>

text \<open>
  An asynchronous function is split at its \<open>await\<close>: the part before it returns the
  state in which the request is issued together with the request, the part after it
  takes the state at the time the reply arrives (every \<open>setItems(prev => ...)\<close> reads
  the current array) and the reply.
\<close>

definition fetchItems_start :: "ListState \<Rightarrow> ListState \<times> Effect list" where
  "fetchItems_start st =
     (if boundListId st = [] then (st, [])
      else (st\<lparr>loading := True, error := None\<rparr>, [Call (GetListItems (boundListId st))]))"

definition fetchItems_finish :: "ListState \<Rightarrow> Row list Reply \<Rightarrow> ListState" where
  "fetchItems_finish st reply =
     (case reply_error reply of
        Some fetchError \<Rightarrow> st\<lparr>error := Some fetchError, items := [], loading := False\<rparr>
      | None \<Rightarrow>
          st\<lparr>items := map mappedItems_entry (case reply_data reply of None \<Rightarrow> [] | Some d \<Rightarrow> d),
             loading := False\<rparr>)"

section \<open>The change-feed handler\<close>

datatype ItemChangeType = INSERT | UPDATE | DELETE

record ItemChange =
  change_type :: ItemChangeType
  change_item :: Row
  change_old :: "Row option"

text \<open>
  \<open>handleRealtimeChange\<close>: the first statement returns when the
  \<open>isPerformingOperation\<close> ref is set; otherwise the row is mapped and the array is
  updated by the event's type.
\<close>

definition handleRealtimeChange :: "ListState \<Rightarrow> ItemChange \<Rightarrow> ListState" where
  "handleRealtimeChange st change =
     (if isPerformingOperation st then st
      else
        (let m = mappedItem (change_item change) in
         case change_type change of
           INSERT \<Rightarrow>
             st\<lparr>items :=
                  (if list_ex (\<lambda>item. item_id item = item_id m) (items st) then items st
                   else items st @ [m])\<rparr>
         | UPDATE \<Rightarrow>
             st\<lparr>items := map (\<lambda>item. if item_id item = item_id m then m else item) (items st)\<rparr>
         | DELETE \<Rightarrow>
             st\<lparr>items := filter (\<lambda>item. item_id item \<noteq> item_id m) (items st)\<rparr>))"


section \<open>The mutating operations\<close>

definition addItem_start ::
  "ListState \<Rightarrow> string \<Rightarrow> string option \<Rightarrow> string option \<Rightarrow> ListState \<times> Effect list" where
  "addItem_start st txt qty nts =
     (if boundListId st = [] then (st, [])
      else
        (st\<lparr>isPerformingOperation := True\<rparr>,
         [Call (CreateItem \<lparr> cd_listId = boundListId st, cd_text = txt, cd_quantity = qty,
                              cd_notes = nts, cd_orderIndex = length (items st) \<rparr>)]))"

definition addItem_finish ::
  "ListState \<Rightarrow> string option \<Rightarrow> Row Reply \<Rightarrow> ListState \<times> Effect list" where
  "addItem_finish st currentUserName reply =
     (case reply_error reply of
        Some createError \<Rightarrow> (st\<lparr>error := Some createError, isPerformingOperation := False\<rparr>, [])
      | None \<Rightarrow>
          ((case reply_data reply of
              Some d \<Rightarrow> st\<lparr>items := items st @ [newItem d currentUserName]\<rparr>
            | None \<Rightarrow> st),
           [SetTimeout 500]))"

definition updateItem_start ::
  "ListState \<Rightarrow> string \<Rightarrow> UpdateItemData \<Rightarrow> ListState \<times> Effect list" where
  "updateItem_start st itemId updates = (st, [Call (UpdateItem itemId updates)])"

definition updateItem_finish ::
  "ListState \<Rightarrow> string \<Rightarrow> Row Reply \<Rightarrow> ListState \<times> Effect list" where
  "updateItem_finish st itemId reply =
     (case reply_error reply of
        Some updateError \<Rightarrow> (st\<lparr>error := Some updateError\<rparr>, [])
      | None \<Rightarrow>
          ((case reply_data reply of
              Some d \<Rightarrow>
                st\<lparr>items := map (\<lambda>item. if item_id item = itemId then mappedItem d else item)
                                (items st)\<rparr>
            | None \<Rightarrow> st),
           []))"

definition toggleItem_start ::
  "ListState \<Rightarrow> string \<Rightarrow> bool \<Rightarrow> ListState \<times> Effect list" where
  "toggleItem_start st itemId bought =
     (st\<lparr>isPerformingOperation := True\<rparr>, [Call (ToggleItemBought itemId bought)])"

definition toggleItem_finish ::
  "ListState \<Rightarrow> string \<Rightarrow> Row Reply \<Rightarrow> ListState \<times> Effect list" where
  "toggleItem_finish st itemId reply =
     (case reply_error reply of
        Some toggleError \<Rightarrow> (st\<lparr>error := Some toggleError, isPerformingOperation := False\<rparr>, [])
      | None \<Rightarrow>
          ((case reply_data reply of
              Some d \<Rightarrow>
                st\<lparr>items := map (\<lambda>item. if item_id item = itemId then mappedItem d else item)
                                (items st)\<rparr>
            | None \<Rightarrow> st),
           [SetTimeout 500]))"

definition deleteItem_start :: "ListState \<Rightarrow> string \<Rightarrow> ListState \<times> Effect list" where
  "deleteItem_start st itemId = (st\<lparr>isPerformingOperation := True\<rparr>, [Call (DeleteItem itemId)])"

text \<open>Of the reply of \<open>deleteItem\<close>, \<open>reorderItems\<close> and \<open>clearBoughtItems\<close> the hook reads the error only.\<close>

definition deleteItem_finish ::
  "ListState \<Rightarrow> string \<Rightarrow> Error option \<Rightarrow> ListState \<times> Effect list" where
  "deleteItem_finish st itemId deleteError =
     (case deleteError of
        Some e \<Rightarrow> (st\<lparr>error := Some e, isPerformingOperation := False\<rparr>, [])
      | None \<Rightarrow>
          (st\<lparr>items := filter (\<lambda>item. item_id item \<noteq> itemId) (items st)\<rparr>, [SetTimeout 500]))"

text \<open>\<open>reorderedItems.map((item, index) => ({ id: item.id, orderIndex: index }))\<close>.\<close>

definition reorder_updates :: "Item list \<Rightarrow> (string \<times> nat) list" where
  "reorder_updates reorderedItems =
     map (\<lambda>(index, item). (item_id item, index)) (enumerate 0 reorderedItems)"

definition reorderItems_start :: "ListState \<Rightarrow> Item list \<Rightarrow> ListState \<times> Effect list" where
  "reorderItems_start st reorderedItems =
     (st\<lparr>items := reorderedItems\<rparr>, [Call (ReorderItems (reorder_updates reorderedItems))])"

text \<open>On an error the error cell is set and \<open>fetchItems()\<close> is called, not awaited.\<close>

definition reorderItems_finish :: "ListState \<Rightarrow> Error option \<Rightarrow> ListState \<times> Effect list" where
  "reorderItems_finish st reorderError =
     (case reorderError of
        Some e \<Rightarrow> fetchItems_start (st\<lparr>error := Some e\<rparr>)
      | None \<Rightarrow> (st, []))"

definition clearBoughtItems_start :: "ListState \<Rightarrow> ListState \<times> Effect list" where
  "clearBoughtItems_start st =
     (if boundListId st = [] then (st, [])
      else (st, [Call (ClearBoughtItems (boundListId st))]))"

definition clearBoughtItems_finish :: "ListState \<Rightarrow> Error option \<Rightarrow> ListState \<times> Effect list" where
  "clearBoughtItems_finish st clearError =
     (case clearError of
        Some e \<Rightarrow> (st\<lparr>error := Some e\<rparr>, [])
      | None \<Rightarrow> (st\<lparr>items := filter (\<lambda>item. \<not> isBought item) (items st)\<rparr>, []))"

section \<open>The derived views\<close>

definition unboughtItems :: "ListState \<Rightarrow> Item list" where
  "unboughtItems st = filter (\<lambda>item. \<not> isBought item) (items st)"

definition boughtItems :: "ListState \<Rightarrow> Item list" where
  "boughtItems st = filter (\<lambda>item. isBought item) (items st)"

section \<open>ItemsService: the queries behind three of the calls\<close>

text \<open>
  The query builder calls \<open>supabase.from('items').update({...}).eq(col, v)...\<close> as
  data: the assignments of the update and the conjunction of its \<open>eq\<close> filters.
\<close>

datatype Cond = EqId string | EqListId string | EqIsBought bool

datatype Assign = SetIsDeleted bool | SetOrderIndex nat | SetUpdatedAt string

datatype Query = UpdateWhere "Assign list" "Cond list"

text \<open>\<open>now\<close> is the value of \<open>new Date().toISOString()\<close>.\<close>

definition ItemsService_deleteItem :: "string \<Rightarrow> string \<Rightarrow> Query list" where
  "ItemsService_deleteItem now itemId =
     [UpdateWhere [SetIsDeleted True, SetUpdatedAt now] [EqId itemId]]"

definition ItemsService_clearBoughtItems :: "string \<Rightarrow> string \<Rightarrow> Query list" where
  "ItemsService_clearBoughtItems now lid =
     [UpdateWhere [SetIsDeleted True, SetUpdatedAt now] [EqListId lid, EqIsBought True]]"

text \<open>
  One query per entry of \<open>updates\<close>; the clock is read once for each, \<open>clock k\<close> being
  the reading for the entry at index \<open>k\<close>.
\<close>

definition ItemsService_reorderItems :: "(nat \<Rightarrow> string) \<Rightarrow> (string \<times> nat) list \<Rightarrow> Query list" where
  "ItemsService_reorderItems clock updates =
     map (\<lambda>(k, (i, pos)). UpdateWhere [SetOrderIndex pos, SetUpdatedAt (clock k)] [EqId i])
       (enumerate 0 updates)"

text \<open>What such a query does to a table: every row that passes all filters is assigned.\<close>

fun holds :: "Cond \<Rightarrow> Row \<Rightarrow> bool" where
  "holds (EqId i) r = (row_id r = i)"
| "holds (EqListId l) r = (list_id r = l)"
| "holds (EqIsBought b) r = (is_bought r = b)"

fun assign :: "Assign \<Rightarrow> Row \<Rightarrow> Row" where
  "assign (SetIsDeleted b) r = r\<lparr>is_deleted := b\<rparr>"
| "assign (SetOrderIndex n) r = r\<lparr>order_index := int n\<rparr>"
| "assign (SetUpdatedAt t) r = r\<lparr>updated_at := t\<rparr>"

fun run_query :: "Query \<Rightarrow> Row list \<Rightarrow> Row list" where
  "run_query (UpdateWhere as cs) rows =
     map (\<lambda>r. if list_all (\<lambda>c. holds c r) cs then fold assign as r else r) rows"

section \<open>RealtimeService\<close>

text \<open>
  A channel object of the client library: its topic, the handler its three listeners
  call, and a reference that tells two objects apart.
\<close>

record 'h Channel =
  topic :: string
  handler :: 'h
  chan_ref :: nat

text \<open>
  The static \<open>channels\<close> map (a JavaScript Map, kept in insertion order, as the
  \<open>forEach\<close> of \<open>unsubscribeAll\<close> visits it), the channels the supabase client holds open,
  and the next fresh reference.
\<close>

record 'h Realtime =
  channels :: "(string \<times> 'h Channel) list"
  client_channels :: "'h Channel list"
  next_ref :: nat

text \<open>\<open>supabase.removeChannel(channel)\<close>: the client lets go of that object.\<close>

definition removeChannel :: "'h Channel \<Rightarrow> 'h Realtime \<Rightarrow> 'h Realtime" where
  "removeChannel ch rs =
     rs\<lparr>client_channels := filter (\<lambda>c. chan_ref c \<noteq> chan_ref ch) (client_channels rs)\<rparr>"

definition subscribeToListItems ::
  "'h Realtime \<Rightarrow> string \<Rightarrow> 'h \<Rightarrow> 'h Channel \<times> 'h Realtime" where
  "subscribeToListItems rs lid onChange =
     (case map_of (channels rs) lid of
        Some existingChannel \<Rightarrow> (existingChannel, rs)
      | None \<Rightarrow>
          (let channel = \<lparr> topic = ''list-items-'' @ lid, handler = onChange,
                           chan_ref = next_ref rs \<rparr>
           in (channel,
               rs\<lparr>channels := AList.update lid channel (channels rs),
                  client_channels := client_channels rs @ [channel],
                  next_ref := Suc (next_ref rs)\<rparr>)))"

definition unsubscribeFromListItems :: "'h Realtime \<Rightarrow> string \<Rightarrow> 'h Realtime" where
  "unsubscribeFromListItems rs lid =
     (case map_of (channels rs) lid of
        Some channel \<Rightarrow> (removeChannel channel rs)\<lparr>channels := AList.delete lid (channels rs)\<rparr>
      | None \<Rightarrow> rs)"

definition unsubscribeAll :: "'h Realtime \<Rightarrow> 'h Realtime" where
  "unsubscribeAll rs =
     (fold (\<lambda>(lid, channel). removeChannel channel) (channels rs) rs)\<lparr>channels := []\<rparr>"

definition getActiveSubscriptionsCount :: "'h Realtime \<Rightarrow> nat" where
  "getActiveSubscriptionsCount rs = length (channels rs)"

text \<open>
  The registry invariant: one entry per list id, the client's open channels are
  exactly the registered ones, each a distinct object made before \<open>next_ref\<close>, each on
  the topic of its list.
\<close>

definition registry_inv :: "'h Realtime \<Rightarrow> bool" where
  "registry_inv rs \<longleftrightarrow>
     distinct (map fst (channels rs))
     \<and> distinct (map chan_ref (client_channels rs))
     \<and> set (client_channels rs) = set (map snd (channels rs))
     \<and> list_all (\<lambda>c. chan_ref c < next_ref rs) (client_channels rs)
     \<and> list_all (\<lambda>(k, c). topic c = ''list-items-'' @ k) (channels rs)"

text \<open>The open channels of one list.\<close>

definition open_channels_of :: "'h Realtime \<Rightarrow> string \<Rightarrow> 'h Channel list" where
  "open_channels_of rs lid = filter (\<lambda>c. topic c = ''list-items-'' @ lid) (client_channels rs)"

definition initial_registry :: "'h Realtime" where
  "initial_registry = \<lparr> channels = [], client_channels = [], next_ref = 0 \<rparr>"

section \<open>Observations and sample data\<close>



definition sample_row :: "string \<Rightarrow> bool \<Rightarrow> string \<Rightarrow> Row" where
  "sample_row i b t =
     \<lparr> row_id = i, list_id = ''L1'', row_text = ''Milk'', is_bought = b, is_deleted = False,
       order_index = 0, created_by = Some ''u1'', created_at = ''2024-01-01T00:00:00Z'',
       updated_at = t, row_version = 1, last_synced_at = None, row_notes = None,
       row_quantity = None, is_important = False, deleted_at = None,
       profiles = Some \<lparr> display_name = Some ''Ann'', email = Some ''ann@example.org'' \<rparr> \<rparr>"

definition sample_item :: "string \<Rightarrow> bool \<Rightarrow> string \<Rightarrow> Item" where
  "sample_item i b t = mappedItems_entry (sample_row i b t)"

definition sample_state :: "Item list \<Rightarrow> ListState" where
  "sample_state its =
     \<lparr> boundListId = ''L1'', items = its, loading = False, error = None,
       isPerformingOperation = False \<rparr>"

definition sample_ab :: ListState where
  "sample_ab = sample_state [sample_item ''a'' False ''2024-01-01T10:00:00Z'',
                             sample_item ''b'' False ''2024-01-02T10:00:00Z'']"

definition sample_xyz :: ListState where
  "sample_xyz = sample_state [sample_item ''x'' True ''2024-01-01T10:00:00Z'',
                              sample_item ''y'' True ''2024-01-02T10:00:00Z'',
                              sample_item ''z'' False ''2024-01-02T10:00:00Z'']"

definition sample_change :: "ItemChangeType \<Rightarrow> string \<Rightarrow> ItemChange" where
  "sample_change ty i =
     \<lparr> change_type = ty, change_item = sample_row i False ''2024-01-03T10:00:00Z'',
       change_old = None \<rparr>"


text \<open>The registry after one subscription to list \<open>L1\<close>; handlers are numbered.\<close>

definition sample_registry :: "nat Realtime" where
  "sample_registry = snd (subscribeToListItems initial_registry ''L1'' 7)"

section \<open>Helper lemmas\<close>

lemmas sample_defs = sample_state_def sample_item_def sample_row_def mappedItems_entry_def
  mappedItem_def or_else_def profile_display_name_def profile_email_def

lemma item_id_mappedItem: "item_id (mappedItem r) = row_id r"
  by (simp add: mappedItem_def)




lemma dropped_while_flag:
  "isPerformingOperation st \<Longrightarrow> foldl handleRealtimeChange st changes = st"
  by (induction changes) (simp_all add: handleRealtimeChange_def)

lemma reorder_updates_nth:
  "k < length xs \<Longrightarrow> reorder_updates xs ! k = (item_id (xs ! k), k)"
  by (simp add: reorder_updates_def nth_enumerate_eq)

lemma reorder_updates_length: "length (reorder_updates xs) = length xs"
  by (simp add: reorder_updates_def)

lemma reorder_updates_fst: "map fst (reorder_updates xs) = map item_id xs"
  by (rule nth_equalityI) (simp_all add: reorder_updates_length reorder_updates_nth)

lemma reorder_updates_snd: "map snd (reorder_updates xs) = [0..<length xs]"
  by (rule nth_equalityI) (simp_all add: reorder_updates_length reorder_updates_nth)

lemma ItemsService_reorderItems_length:
  "length (ItemsService_reorderItems clock updates) = length updates"
  by (simp add: ItemsService_reorderItems_def)

lemma ItemsService_reorderItems_nth:
  "k < length updates \<Longrightarrow>
   ItemsService_reorderItems clock updates ! k
     = UpdateWhere [SetOrderIndex (snd (updates ! k)), SetUpdatedAt (clock k)]
         [EqId (fst (updates ! k))]"
  by (simp add: ItemsService_reorderItems_def nth_enumerate_eq case_prod_unfold)

lemma update_absent: "map_of al k = None \<Longrightarrow> AList.update k v al = al @ [(k, v)]"
  by (induction al) (auto split: if_splits)

lemma delete_filter: "AList.delete k al = filter (\<lambda>p. fst p \<noteq> k) al"
  by (induction al) auto

lemma fold_removeChannel:
  "fold (\<lambda>(lid, channel). removeChannel channel) cs rs
     = rs\<lparr>client_channels :=
            filter (\<lambda>c. chan_ref c \<notin> set (map (chan_ref \<circ> snd) cs)) (client_channels rs)\<rparr>"
proof (induction cs arbitrary: rs)
  case Nil
  then show ?case by simp
next
  case (Cons p cs)
  obtain l ch where p: "p = (l, ch)" by (cases p)
  have "fold (\<lambda>(lid, channel). removeChannel channel) (p # cs) rs
          = fold (\<lambda>(lid, channel). removeChannel channel) cs (removeChannel ch rs)"
    by (simp add: p)
  also have "\<dots> = (removeChannel ch rs)\<lparr>client_channels :=
            filter (\<lambda>c. chan_ref c \<notin> set (map (chan_ref \<circ> snd) cs))
              (client_channels (removeChannel ch rs))\<rparr>"
    by (rule Cons.IH)
  also have "\<dots> = rs\<lparr>client_channels :=
            filter (\<lambda>c. chan_ref c \<notin> set (map (chan_ref \<circ> snd) (p # cs))) (client_channels rs)\<rparr>"
    by (simp add: removeChannel_def p conj_commute)
  finally show ?case .
qed

lemma inv_initial: "registry_inv initial_registry"
  by (simp add: registry_inv_def initial_registry_def)

lemma inv_subscribe:
  assumes "registry_inv rs"
  shows "registry_inv (snd (subscribeToListItems rs lid onChange))"
proof (cases "map_of (channels rs) lid")
  case (Some ch)
  with assms show ?thesis by (simp add: subscribeToListItems_def)
next
  case None
  then have notin: "lid \<notin> fst ` set (channels rs)"
    by (simp add: map_of_eq_None_iff)
  from assms have dk: "distinct (map fst (channels rs))"
    and d: "distinct (map chan_ref (client_channels rs))"
    and s: "set (client_channels rs) = set (map snd (channels rs))"
    and b: "list_all (\<lambda>c. chan_ref c < next_ref rs) (client_channels rs)"
    and t: "list_all (\<lambda>(k, c). topic c = ''list-items-'' @ k) (channels rs)"
    by (simp_all add: registry_inv_def)
  from b have fresh: "next_ref rs \<notin> chan_ref ` set (client_channels rs)"
    by (auto simp: list_all_iff)
  from b have b': "list_all (\<lambda>c. chan_ref c < Suc (next_ref rs)) (client_channels rs)"
    by (auto simp: list_all_iff)
  from None notin dk d s b' t fresh show ?thesis
    by (simp add: subscribeToListItems_def update_absent registry_inv_def Let_def)
qed

lemma inv_same_ref:
  assumes "registry_inv rs" "(k, c) \<in> set (channels rs)" "(k', c') \<in> set (channels rs)"
    "chan_ref c = chan_ref c'"
  shows "k = k' \<and> c = c'"
proof -
  from assms(1) have d: "distinct (map chan_ref (client_channels rs))"
    and s: "set (client_channels rs) = set (map snd (channels rs))"
    and t: "list_all (\<lambda>(k, c). topic c = ''list-items-'' @ k) (channels rs)"
    by (simp_all add: registry_inv_def)
  from s assms(2,3) have "c \<in> set (client_channels rs)" "c' \<in> set (client_channels rs)"
    by force+
  with d assms(4) have cc: "c = c'"
    by (meson distinct_map inj_onD)
  from t assms(2,3) have "topic c = ''list-items-'' @ k" "topic c' = ''list-items-'' @ k'"
    by (auto simp: list_all_iff)
  with cc show ?thesis by simp
qed

lemma inv_unsubscribe:
  assumes "registry_inv rs"
  shows "registry_inv (unsubscribeFromListItems rs lid)"
proof (cases "map_of (channels rs) lid")
  case None
  with assms show ?thesis by (simp add: unsubscribeFromListItems_def)
next
  case (Some ch)
  then have mem: "(lid, ch) \<in> set (channels rs)" by (rule map_of_SomeD)
  have key: "\<And>k c. (k, c) \<in> set (channels rs) \<Longrightarrow> (k \<noteq> lid) = (chan_ref c \<noteq> chan_ref ch)"
  proof -
    fix k c assume kc: "(k, c) \<in> set (channels rs)"
    from assms have dk: "distinct (map fst (channels rs))" by (simp add: registry_inv_def)
    show "(k \<noteq> lid) = (chan_ref c \<noteq> chan_ref ch)"
    proof
      assume "k \<noteq> lid"
      with inv_same_ref[OF assms kc mem] show "chan_ref c \<noteq> chan_ref ch" by blast
    next
      assume "chan_ref c \<noteq> chan_ref ch"
      then show "k \<noteq> lid"
        using kc mem dk by (auto dest: eq_key_imp_eq_value)
    qed
  qed
  from assms have dk: "distinct (map fst (channels rs))"
    and d: "distinct (map chan_ref (client_channels rs))"
    and s: "set (client_channels rs) = set (map snd (channels rs))"
    and b: "list_all (\<lambda>c. chan_ref c < next_ref rs) (client_channels rs)"
    and t: "list_all (\<lambda>(k, c). topic c = ''list-items-'' @ k) (channels rs)"
    by (simp_all add: registry_inv_def)
  have s': "set (filter (\<lambda>c. chan_ref c \<noteq> chan_ref ch) (client_channels rs))
            = set (map snd (filter (\<lambda>p. fst p \<noteq> lid) (channels rs)))"
    using s key by force
  have "distinct (map fst (filter (\<lambda>p. fst p \<noteq> lid) (channels rs)))"
    using dk by (simp add: distinct_map_filter)
  moreover have "distinct (map chan_ref (filter (\<lambda>c. chan_ref c \<noteq> chan_ref ch) (client_channels rs)))"
    using d by (simp add: distinct_map_filter)
  moreover have "list_all (\<lambda>c. chan_ref c < next_ref rs) (filter (\<lambda>c. chan_ref c \<noteq> chan_ref ch) (client_channels rs))"
    using b by (simp add: list_all_iff)
  moreover have "list_all (\<lambda>(k, c). topic c = ''list-items-'' @ k) (filter (\<lambda>p. fst p \<noteq> lid) (channels rs))"
    using t by (simp add: list_all_iff)
  ultimately show ?thesis
    using Some s' by (simp add: unsubscribeFromListItems_def removeChannel_def delete_filter registry_inv_def)
qed

lemma inv_unsubscribeAll:
  assumes "registry_inv rs"
  shows "registry_inv (unsubscribeAll rs)"
proof -
  from assms have s: "set (client_channels rs) = set (map snd (channels rs))"
    by (simp add: registry_inv_def)
  then have "filter (\<lambda>c. chan_ref c \<notin> set (map (chan_ref \<circ> snd) (channels rs))) (client_channels rs) = []"
    by (force simp: filter_empty_conv)
  then show ?thesis
    by (simp add: unsubscribeAll_def fold_removeChannel registry_inv_def)
qed

lemma inv_at_most_one:
  assumes "registry_inv rs"
  shows "length (open_channels_of rs l) \<le> 1"
proof -
  from assms have dk: "distinct (map fst (channels rs))"
    and d: "distinct (map chan_ref (client_channels rs))"
    and s: "set (client_channels rs) = set (map snd (channels rs))"
    and t: "list_all (\<lambda>(k, c). topic c = ''list-items-'' @ k) (channels rs)"
    by (simp_all add: registry_inv_def)
  from d have dc: "distinct (open_channels_of rs l)"
    by (simp add: open_channels_of_def distinct_map)
  have sub: "\<And>c c'. c \<in> set (open_channels_of rs l) \<Longrightarrow> c' \<in> set (open_channels_of rs l) \<Longrightarrow> c = c'"
  proof -
    fix c c' assume a: "c \<in> set (open_channels_of rs l)" "c' \<in> set (open_channels_of rs l)"
    then obtain k k' where kc: "(k, c) \<in> set (channels rs)" "(k', c') \<in> set (channels rs)"
      using s by (force simp: open_channels_of_def)
    with t have "topic c = ''list-items-'' @ k" "topic c' = ''list-items-'' @ k'"
      by (auto simp: list_all_iff)
    with a have "k = l" "k' = l" by (auto simp: open_channels_of_def)
    with kc dk show "c = c'" by (auto dest: eq_key_imp_eq_value)
  qed
  show ?thesis
  proof (cases "open_channels_of rs l")
    case Nil
    then show ?thesis by simp
  next
    case outer: (Cons x xs)
    show ?thesis
    proof (cases xs)
      case Nil
      with outer show ?thesis by simp
    next
      case (Cons y ys)
      with outer sub[of x y] dc show ?thesis by auto
    qed
  qed
qed

section \<open>The claims\<close>

text \<open>
  C1, as amended. Of the six mutating operations only \<open>reorderItems\<close> changes the items
  array before its request is issued. \<open>addItem\<close>, \<open>updateItem\<close>, \<open>toggleItem\<close>,
  \<open>deleteItem\<close> and \<open>clearBoughtItems\<close> issue their request (the first and the last
  only for a bound list) with the array as it was, and apply their change when a
  successful reply arrives; \<open>deleteItem\<close> removes the record only then. A reply with an
  error, or one with neither error nor data, leaves the array as it is.
\<close>

theorem only_reorder_is_optimistic:
  "items (fst (addItem_start st txt qty nts)) = items st
   \<and> snd (addItem_start st txt qty nts)
        = (if boundListId st = [] then []
           else [Call (CreateItem \<lparr> cd_listId = boundListId st, cd_text = txt, cd_quantity = qty,
                                    cd_notes = nts, cd_orderIndex = length (items st) \<rparr>)])
   \<and> items (fst (updateItem_start st itemId updates)) = items st
   \<and> snd (updateItem_start st itemId updates) = [Call (UpdateItem itemId updates)]
   \<and> items (fst (toggleItem_start st itemId bought)) = items st
   \<and> snd (toggleItem_start st itemId bought) = [Call (ToggleItemBought itemId bought)]
   \<and> items (fst (deleteItem_start st itemId)) = items st
   \<and> snd (deleteItem_start st itemId) = [Call (DeleteItem itemId)]
   \<and> items (fst (clearBoughtItems_start st)) = items st
   \<and> snd (clearBoughtItems_start st)
        = (if boundListId st = [] then [] else [Call (ClearBoughtItems (boundListId st))])
   \<and> items (fst (reorderItems_start st reorderedItems)) = reorderedItems
   \<and> snd (reorderItems_start st reorderedItems)
        = [Call (ReorderItems (reorder_updates reorderedItems))]
   \<and> items (fst (addItem_finish st nm \<lparr>reply_data = Some d, reply_error = None\<rparr>))
        = items st @ [newItem d nm]
   \<and> items (fst (updateItem_finish st itemId \<lparr>reply_data = Some d, reply_error = None\<rparr>))
        = map (\<lambda>item. if item_id item = itemId then mappedItem d else item) (items st)
   \<and> items (fst (toggleItem_finish st itemId \<lparr>reply_data = Some d, reply_error = None\<rparr>))
        = map (\<lambda>item. if item_id item = itemId then mappedItem d else item) (items st)
   \<and> items (fst (deleteItem_finish st itemId None))
        = filter (\<lambda>item. item_id item \<noteq> itemId) (items st)
   \<and> items (fst (clearBoughtItems_finish st None))
        = filter (\<lambda>item. \<not> isBought item) (items st)
   \<and> items (fst (addItem_finish st nm \<lparr>reply_data = dd, reply_error = Some e\<rparr>)) = items st
   \<and> items (fst (updateItem_finish st itemId \<lparr>reply_data = dd, reply_error = Some e\<rparr>)) = items st
   \<and> items (fst (toggleItem_finish st itemId \<lparr>reply_data = dd, reply_error = Some e\<rparr>)) = items st
   \<and> items (fst (deleteItem_finish st itemId (Some e))) = items st
   \<and> items (fst (clearBoughtItems_finish st (Some e))) = items st
   \<and> items (fst (addItem_finish st nm \<lparr>reply_data = None, reply_error = None\<rparr>)) = items st
   \<and> items (fst (updateItem_finish st itemId \<lparr>reply_data = None, reply_error = None\<rparr>)) = items st
   \<and> items (fst (toggleItem_finish st itemId \<lparr>reply_data = None, reply_error = None\<rparr>)) = items st"
  by (simp add: addItem_start_def updateItem_start_def toggleItem_start_def deleteItem_start_def
      clearBoughtItems_start_def reorderItems_start_def addItem_finish_def updateItem_finish_def
      toggleItem_finish_def deleteItem_finish_def clearBoughtItems_finish_def)

text \<open>
  C1 as stated fails: when \<open>deleteItem(''a'')\<close> issues its soft-delete request, the
  record \<open>a\<close> is still in the items array.
\<close>

theorem deleteItem_not_optimistic_counterexample:
  "''a'' \<in> set (map item_id (items (fst (deleteItem_start
       (sample_state [sample_item ''a'' False ''2024-01-01T10:00:00Z'']) ''a''))))
   \<and> snd (deleteItem_start (sample_state [sample_item ''a'' False ''2024-01-01T10:00:00Z'']) ''a'')
        = [Call (DeleteItem ''a'')]"
  by (simp add: deleteItem_start_def sample_defs)

text \<open>
  C2, as amended. The guard is the single \<open>isPerformingOperation\<close> flag, not a marker
  per record id. While it is set, an event for any id leaves the state as it is;
  \<open>addItem\<close>, \<open>toggleItem\<close> and \<open>deleteItem\<close> set it, whatever id they work on. While it
  is not set, an insert appends the mapped record unless its id is present, an update
  replaces every record with the event's id by the mapped record, and a delete removes
  every record with the event's id.
\<close>

theorem handleRealtimeChange_guard:
  "(isPerformingOperation st \<longrightarrow> handleRealtimeChange st change = st)
   \<and> (boundListId st \<noteq> [] \<longrightarrow> isPerformingOperation (fst (addItem_start st txt qty nts)))
   \<and> isPerformingOperation (fst (toggleItem_start st itemId bought))
   \<and> isPerformingOperation (fst (deleteItem_start st itemId))
   \<and> handleRealtimeChange (fst (toggleItem_start st itemId bought)) change
        = fst (toggleItem_start st itemId bought)
   \<and> (\<not> isPerformingOperation st \<longrightarrow>
        (change_type change = INSERT
           \<and> row_id (change_item change) \<notin> set (map item_id (items st)) \<longrightarrow>
           items (handleRealtimeChange st change) = items st @ [mappedItem (change_item change)])
        \<and> (change_type change = INSERT
           \<and> row_id (change_item change) \<in> set (map item_id (items st)) \<longrightarrow>
           items (handleRealtimeChange st change) = items st)
        \<and> (change_type change = UPDATE \<longrightarrow>
           items (handleRealtimeChange st change)
             = map (\<lambda>item. if item_id item = row_id (change_item change)
                           then mappedItem (change_item change) else item) (items st))
        \<and> (change_type change = DELETE \<longrightarrow>
           items (handleRealtimeChange st change)
             = filter (\<lambda>item. item_id item \<noteq> row_id (change_item change)) (items st)))"
  by (auto simp add: handleRealtimeChange_def addItem_start_def toggleItem_start_def
      deleteItem_start_def item_id_mappedItem list_ex_iff Let_def intro: rev_image_eqI)

theorem handleRealtimeChange_guard_witness:
  "isPerformingOperation (fst (toggleItem_start sample_ab ''a'' True))
   \<and> handleRealtimeChange (fst (toggleItem_start sample_ab ''a'' True))
         (sample_change DELETE ''b'')
        = fst (toggleItem_start sample_ab ''a'' True)
   \<and> \<not> isPerformingOperation sample_ab
   \<and> change_type (sample_change DELETE ''b'') = DELETE
   \<and> map item_id (items (handleRealtimeChange sample_ab (sample_change DELETE ''b''))) = [''a'']"
  using handleRealtimeChange_guard [where st = sample_ab and change = "sample_change DELETE ''b''"
      and itemId = "''a''" and bought = True]
  by (simp add: sample_ab_def sample_change_def sample_defs)

text \<open>
  C2 as stated fails: while \<open>toggleItem(''a'', true)\<close> is in flight, a delete event
  for the other record \<open>b\<close> is dropped, and \<open>b\<close> stays in the array.
\<close>

theorem guard_drops_other_id_counterexample:
  "''b'' \<in> set (map item_id (items (handleRealtimeChange
      (fst (toggleItem_start
              (sample_state [sample_item ''a'' False ''2024-01-01T10:00:00Z'',
                             sample_item ''b'' False ''2024-01-01T10:00:00Z'']) ''a'' True))
      \<lparr>change_type = DELETE, change_item = sample_row ''b'' False ''2024-01-01T10:00:00Z'',
        change_old = None\<rparr>)))"
  by (simp add: handleRealtimeChange_def toggleItem_start_def sample_defs)




text \<open>
  C4, as amended. The two views are a partition of the items array by the bought flag:
  every record is in exactly one of them, the one its flag names. The bought view keeps
  the order of the array; it is not sorted by update time. Calling \<open>toggleItem\<close> leaves
  both views as they are while the request is in flight; the record changes view when
  the successful reply replaces it.
\<close>

theorem views_partition_by_bought_flag:
  "subseq (boughtItems st) (items st)
   \<and> set (unboughtItems st) \<subseteq> set (items st)
   \<and> (\<forall>item \<in> set (items st). item \<in> set (unboughtItems st) \<longleftrightarrow> \<not> isBought item)
   \<and> (\<forall>item \<in> set (items st). item \<in> set (boughtItems st) \<longleftrightarrow> isBought item)
   \<and> mset (unboughtItems st) + mset (boughtItems st) = mset (items st)
   \<and> unboughtItems (fst (toggleItem_start st itemId bought)) = unboughtItems st
   \<and> boughtItems (fst (toggleItem_start st itemId bought)) = boughtItems st
   \<and> (row_id d = itemId \<and> is_bought d \<and> itemId \<in> set (map item_id (items st)) \<longrightarrow>
        mappedItem d \<in> set (boughtItems (fst (toggleItem_finish st itemId
                                \<lparr>reply_data = Some d, reply_error = None\<rparr>)))
        \<and> itemId \<notin> set (map item_id (unboughtItems (fst (toggleItem_finish st itemId
                                \<lparr>reply_data = Some d, reply_error = None\<rparr>)))))"
  by (auto simp add: unboughtItems_def boughtItems_def toggleItem_start_def
      toggleItem_finish_def mappedItem_def)

theorem views_partition_by_bought_flag_witness:
  "map item_id (unboughtItems sample_xyz) = [''z'']
   \<and> map item_id (boughtItems sample_xyz) = [''x'', ''y'']
   \<and> row_id (sample_row ''z'' True ''2024-01-03T10:00:00Z'') = ''z''
   \<and> is_bought (sample_row ''z'' True ''2024-01-03T10:00:00Z'')
   \<and> ''z'' \<in> set (map item_id (items sample_xyz))
   \<and> map item_id (unboughtItems (fst (toggleItem_start sample_xyz ''z'' True))) = [''z'']
   \<and> map item_id (boughtItems (fst (toggleItem_finish sample_xyz ''z''
         \<lparr>reply_data = Some (sample_row ''z'' True ''2024-01-03T10:00:00Z''),
           reply_error = None\<rparr>)))
       = [''x'', ''y'', ''z'']"
  using views_partition_by_bought_flag [where st = sample_xyz and itemId = "''z''"
      and bought = True and d = "sample_row ''z'' True ''2024-01-03T10:00:00Z''"]
  by (simp add: sample_xyz_def sample_defs unboughtItems_def boughtItems_def
      toggleItem_start_def toggleItem_finish_def)

text \<open>
  C4 as stated fails: with two bought records, the older one first in the array, the
  bought view lists the older one first, so it is not ordered most recently updated
  first; and when \<open>toggleItem(''z'', true)\<close> has issued its request, \<open>z\<close> is still in the
  not-bought view.
\<close>

theorem views_not_sorted_counterexample:
  "\<not> sorted (rev (map updatedAt (boughtItems sample_xyz)))
   \<and> ''z'' \<in> set (map item_id (unboughtItems (fst (toggleItem_start sample_xyz ''z'' True))))"
  by (simp add: boughtItems_def unboughtItems_def toggleItem_start_def sample_xyz_def
      sample_defs)

text \<open>
  C5, as amended. \<open>clearBoughtItems\<close> first sends its one request, with the items array
  unchanged; the service turns it into a single update that marks as deleted exactly
  the rows of that list whose bought flag is set. On success the bought records are
  removed from the array. On failure the array stays as it is, the error is set, and
  nothing is fetched.
\<close>

theorem clearBoughtItems_confirmed_then_applied:
  "(boundListId st \<noteq> [] \<longrightarrow>
      clearBoughtItems_start st = (st, [Call (ClearBoughtItems (boundListId st))]))
   \<and> ItemsService_clearBoughtItems now lid
        = [UpdateWhere [SetIsDeleted True, SetUpdatedAt now] [EqListId lid, EqIsBought True]]
   \<and> (\<forall>q \<in> set (ItemsService_clearBoughtItems now lid).
        run_query q rows
          = map (\<lambda>r. if list_id r = lid \<and> is_bought r
                       then r\<lparr>is_deleted := True, updated_at := now\<rparr> else r) rows)
   \<and> clearBoughtItems_finish st None
        = (st\<lparr>items := filter (\<lambda>item. \<not> isBought item) (items st)\<rparr>, [])
   \<and> clearBoughtItems_finish st (Some e) = (st\<lparr>error := Some e\<rparr>, [])"
  by (simp add: clearBoughtItems_start_def clearBoughtItems_finish_def
      ItemsService_clearBoughtItems_def)

theorem clearBoughtItems_confirmed_then_applied_witness:
  "boundListId sample_xyz \<noteq> []
   \<and> snd (clearBoughtItems_start sample_xyz) = [Call (ClearBoughtItems ''L1'')]
   \<and> map item_id (items (fst (clearBoughtItems_start sample_xyz))) = [''x'', ''y'', ''z'']
   \<and> map item_id (items (fst (clearBoughtItems_finish sample_xyz None))) = [''z'']
   \<and> map item_id (items (fst (clearBoughtItems_finish sample_xyz (Some (Error ''offline'')))))
        = [''x'', ''y'', ''z'']
   \<and> map is_deleted (run_query (hd (ItemsService_clearBoughtItems ''2024-01-05T10:00:00Z'' ''L1''))
        [sample_row ''x'' True ''2024-01-01T10:00:00Z'',
         sample_row ''z'' False ''2024-01-02T10:00:00Z'']) = [True, False]"
  using clearBoughtItems_confirmed_then_applied [where st = sample_xyz
      and e = "Error ''offline''" and now = "''2024-01-05T10:00:00Z''" and lid = "''L1''"
      and rows = "[sample_row ''x'' True ''2024-01-01T10:00:00Z'',
                   sample_row ''z'' False ''2024-01-02T10:00:00Z'']"]
  by (simp add: sample_xyz_def sample_defs)

text \<open>
  C5 as stated fails: when the request of \<open>clearBoughtItems\<close> is issued the bought record
  \<open>x\<close> is still in the array, and after a failed reply no request is made, so the list
  is not fetched again.
\<close>

theorem clearBoughtItems_no_refetch_counterexample:
  "''x'' \<in> set (map item_id (items (fst (clearBoughtItems_start sample_xyz))))
   \<and> snd (clearBoughtItems_finish (fst (clearBoughtItems_start sample_xyz))
        (Some (Error ''offline''))) = []"
  by (simp add: clearBoughtItems_start_def clearBoughtItems_finish_def sample_xyz_def
      sample_defs)

text \<open>
  C6. When the soft-delete of \<open>deleteItem\<close> fails, the items array at the time the error
  is set equals the array from before the call, so the record is there with the
  fields it had. The same holds when change-feed events arrive while the request is
  in flight: the flag that \<open>deleteItem\<close> set makes the handler drop them.
\<close>

theorem deleteItem_failure_keeps_record:
  "item \<in> set (items st) \<and> item_id item = itemId \<longrightarrow>
     items (fst (deleteItem_finish (fst (deleteItem_start st itemId)) itemId (Some e)))
       = items st
     \<and> item \<in> set (items (fst (deleteItem_finish (fst (deleteItem_start st itemId)) itemId
                               (Some e))))
     \<and> error (fst (deleteItem_finish (fst (deleteItem_start st itemId)) itemId (Some e)))
         = Some e
     \<and> items (fst (deleteItem_finish
                     (foldl handleRealtimeChange (fst (deleteItem_start st itemId)) changes)
                     itemId (Some e)))
         = items st"
proof -
  have "isPerformingOperation (fst (deleteItem_start st itemId))"
    by (simp add: deleteItem_start_def)
  then have "foldl handleRealtimeChange (fst (deleteItem_start st itemId)) changes
               = fst (deleteItem_start st itemId)"
    by (rule dropped_while_flag)
  then show ?thesis
    by (simp add: deleteItem_start_def deleteItem_finish_def)
qed

theorem deleteItem_failure_keeps_record_witness:
  "sample_item ''a'' False ''2024-01-01T10:00:00Z'' \<in> set (items sample_ab)
   \<and> item_id (sample_item ''a'' False ''2024-01-01T10:00:00Z'') = ''a''
   \<and> sample_item ''a'' False ''2024-01-01T10:00:00Z''
        \<in> set (items (fst (deleteItem_finish (fst (deleteItem_start sample_ab ''a'')) ''a''
                           (Some (Error ''offline'')))))
   \<and> items (fst (deleteItem_finish
        (foldl handleRealtimeChange (fst (deleteItem_start sample_ab ''a''))
           [sample_change DELETE ''a'', sample_change UPDATE ''b''])
        ''a'' (Some (Error ''offline'')))) = items sample_ab"
  using deleteItem_failure_keeps_record [where st = sample_ab and itemId = "''a''"
      and item = "sample_item ''a'' False ''2024-01-01T10:00:00Z''"
      and e = "Error ''offline''"
      and changes = "[sample_change DELETE ''a'', sample_change UPDATE ''b'']"]
  by (simp add: sample_ab_def sample_defs)

text \<open>
  C7. \<open>reorderItems\<close> sets the items array to the list it is given, then sends one
  position update per record: the record at index \<open>k\<close> of the new order gets position
  \<open>k\<close>, so the positions are \<open>0..N-1\<close>, a function of the new order alone. On a failure of
  the batch it calls \<open>fetchItems\<close>, which for a bound list issues the full fetch; when
  the rows arrive the whole array is replaced by the mapped rows, in the server's
  order and with the server's ids and positions, whatever the array held, and loading
  is off. A failed fetch leaves the empty array and its error.
\<close>

theorem reorderItems_positions_and_fallback:
  "items (fst (reorderItems_start st xs)) = xs
   \<and> snd (reorderItems_start st xs) = [Call (ReorderItems (reorder_updates xs))]
   \<and> map fst (reorder_updates xs) = map item_id xs
   \<and> map snd (reorder_updates xs) = [0..<length xs]
   \<and> length (ItemsService_reorderItems clock (reorder_updates xs)) = length xs
   \<and> (\<forall>k<length xs.
         ItemsService_reorderItems clock (reorder_updates xs) ! k
           = UpdateWhere [SetOrderIndex k, SetUpdatedAt (clock k)] [EqId (item_id (xs ! k))])
   \<and> (boundListId st \<noteq> [] \<longrightarrow>
         reorderItems_finish st (Some e)
           = (st\<lparr>error := None, loading := True\<rparr>, [Call (GetListItems (boundListId st))])
         \<and> reorderItems_finish st (Some e) = fetchItems_start (st\<lparr>error := Some e\<rparr>)
         \<and> fetchItems_finish (fst (reorderItems_finish st (Some e)))
              \<lparr>reply_data = Some rows, reply_error = None\<rparr>
             = st\<lparr>items := map mappedItems_entry rows, loading := False, error := None\<rparr>)
   \<and> items (fetchItems_finish st' \<lparr>reply_data = Some rows, reply_error = None\<rparr>)
         = map mappedItems_entry rows
   \<and> loading (fetchItems_finish st' \<lparr>reply_data = Some rows, reply_error = None\<rparr>) = False
   \<and> items (fetchItems_finish st' \<lparr>reply_data = None, reply_error = None\<rparr>) = []
   \<and> items (fetchItems_finish st' \<lparr>reply_data = dd, reply_error = Some e'\<rparr>) = []
   \<and> error (fetchItems_finish st' \<lparr>reply_data = dd, reply_error = Some e'\<rparr>) = Some e'
   \<and> map item_id (map mappedItems_entry rows) = map row_id rows
   \<and> map orderIndex (map mappedItems_entry rows) = map order_index rows
   \<and> reorderItems_finish st None = (st, [])"
  by (simp add: reorderItems_start_def reorderItems_finish_def fetchItems_start_def
      fetchItems_finish_def mappedItems_entry_def mappedItem_def
      reorder_updates_fst reorder_updates_snd reorder_updates_length
      ItemsService_reorderItems_length ItemsService_reorderItems_nth reorder_updates_nth)

theorem reorderItems_positions_and_fallback_witness:
  "boundListId sample_ab \<noteq> []
   \<and> map item_id (items (fst (reorderItems_start sample_ab (rev (items sample_ab)))))
        = [''b'', ''a'']
   \<and> reorder_updates (rev (items sample_ab)) = [(''b'', 0), (''a'', 1)]
   \<and> (1::nat) < length (rev (items sample_ab))
   \<and> ItemsService_reorderItems (\<lambda>k. ''2024-01-05T10:00:00Z'')
          (reorder_updates (rev (items sample_ab))) ! 1
         = UpdateWhere [SetOrderIndex 1, SetUpdatedAt ''2024-01-05T10:00:00Z''] [EqId ''a'']
   \<and> snd (reorderItems_finish (fst (reorderItems_start sample_ab (rev (items sample_ab))))
            (Some (Error ''offline'')))
        = [Call (GetListItems ''L1'')]
   \<and> map item_id (items (fetchItems_finish
          (fst (reorderItems_finish (fst (reorderItems_start sample_ab (rev (items sample_ab))))
                  (Some (Error ''offline''))))
          \<lparr>reply_data = Some [sample_row ''a'' False ''2024-01-01T10:00:00Z'',
                              sample_row ''b'' False ''2024-01-02T10:00:00Z''],
            reply_error = None\<rparr>))
        = [''a'', ''b'']"
  using reorderItems_positions_and_fallback [where st = sample_ab
       and xs = "rev (items sample_ab)" and e = "Error ''offline''"
       and clock = "\<lambda>k. ''2024-01-05T10:00:00Z''"]
    reorderItems_positions_and_fallback
      [where st = "fst (reorderItems_start sample_ab (rev (items sample_ab)))"
       and e = "Error ''offline''"
       and rows = "[sample_row ''a'' False ''2024-01-01T10:00:00Z'',
                    sample_row ''b'' False ''2024-01-02T10:00:00Z'']"]
  by (simp add: sample_ab_def sample_defs reorder_updates_def reorderItems_start_def
      ItemsService_reorderItems_def)

text \<open>
  C8. The empty registry satisfies the registry invariant, and \<open>subscribeToListItems\<close>,
  \<open>unsubscribeFromListItems\<close> and \<open>unsubscribeAll\<close> preserve it. Under the invariant the
  \<open>channels\<close> map has one entry per list id and the client holds at most one open
  channel for any list. Subscribing to a list that has an entry returns the entry's
  channel and leaves the registry and the client as they are.
\<close>

theorem registry_one_channel_per_list:
  "registry_inv (initial_registry :: 'h Realtime)
   \<and> (registry_inv (rs :: 'h Realtime) \<longrightarrow>
        registry_inv (snd (subscribeToListItems rs lid onChange))
        \<and> registry_inv (unsubscribeFromListItems rs lid)
        \<and> registry_inv (unsubscribeAll rs)
        \<and> distinct (map fst (channels rs))
        \<and> length (open_channels_of rs l) \<le> 1)
   \<and> (map_of (channels rs) lid = Some ch \<longrightarrow>
        subscribeToListItems rs lid onChange = (ch, rs))"
proof (intro conjI impI)
  show "registry_inv (initial_registry :: 'h Realtime)" by (rule inv_initial)
next
  assume "registry_inv rs"
  then show "registry_inv (snd (subscribeToListItems rs lid onChange))" by (rule inv_subscribe)
next
  assume "registry_inv rs"
  then show "registry_inv (unsubscribeFromListItems rs lid)" by (rule inv_unsubscribe)
next
  assume "registry_inv rs"
  then show "registry_inv (unsubscribeAll rs)" by (rule inv_unsubscribeAll)
next
  assume "registry_inv rs"
  then show "distinct (map fst (channels rs))" by (simp add: registry_inv_def)
next
  assume "registry_inv rs"
  then show "length (open_channels_of rs l) \<le> 1" by (rule inv_at_most_one)
next
  assume "map_of (channels rs) lid = Some ch"
  then show "subscribeToListItems rs lid onChange = (ch, rs)"
    by (simp add: subscribeToListItems_def)
qed

theorem registry_one_channel_per_list_witness:
  "registry_inv sample_registry
   \<and> map_of (channels sample_registry) ''L1''
       = Some \<lparr>topic = ''list-items-L1'', handler = 7, chan_ref = 0\<rparr>
   \<and> subscribeToListItems sample_registry ''L1'' 8
       = (\<lparr>topic = ''list-items-L1'', handler = 7, chan_ref = 0\<rparr>, sample_registry)
   \<and> length (client_channels (snd (subscribeToListItems sample_registry ''L1'' 8))) = 1
   \<and> registry_inv (snd (subscribeToListItems sample_registry ''L2'' 8))
   \<and> length (open_channels_of (snd (subscribeToListItems sample_registry ''L2'' 8)) ''L1'') = 1
   \<and> channels (unsubscribeFromListItems sample_registry ''L1'') = []
   \<and> client_channels (unsubscribeAll (snd (subscribeToListItems sample_registry ''L2'' 8))) = []"
  using registry_one_channel_per_list [where rs = sample_registry and lid = "''L1''"
      and onChange = 8 and ch = "\<lparr>topic = ''list-items-L1'', handler = 7, chan_ref = 0\<rparr>"]
    registry_one_channel_per_list [where rs = sample_registry and lid = "''L2''"
      and onChange = 8]
  by (simp add: sample_registry_def initial_registry_def subscribeToListItems_def
      registry_inv_def open_channels_of_def unsubscribeFromListItems_def unsubscribeAll_def
      removeChannel_def Let_def)

text \<open>
  C9. When the fetch of \<open>fetchItems\<close> fails, the items array becomes the empty list,
  whatever was cached before, the error cell holds the fetch error and loading is off.
  For a hook bound to a list, this is the state after the whole failed refresh.
\<close>

theorem fetchItems_failure_empties_view:
  "items (fetchItems_finish st \<lparr>reply_data = d, reply_error = Some e\<rparr>) = []
   \<and> error (fetchItems_finish st \<lparr>reply_data = d, reply_error = Some e\<rparr>) = Some e
   \<and> loading (fetchItems_finish st \<lparr>reply_data = d, reply_error = Some e\<rparr>) = False
   \<and> (boundListId st \<noteq> [] \<longrightarrow>
        snd (fetchItems_start st) = [Call (GetListItems (boundListId st))]
        \<and> items (fetchItems_finish (fst (fetchItems_start st))
                   \<lparr>reply_data = d, reply_error = Some e\<rparr>) = [])"
  by (simp add: fetchItems_finish_def fetchItems_start_def)

theorem fetchItems_failure_empties_view_witness:
  "boundListId (sample_state [sample_item ''a'' False ''2024-01-01T10:00:00Z'']) \<noteq> []
   \<and> items (sample_state [sample_item ''a'' False ''2024-01-01T10:00:00Z'']) \<noteq> []
   \<and> items (fetchItems_finish
        (fst (fetchItems_start (sample_state [sample_item ''a'' False ''2024-01-01T10:00:00Z''])))
        \<lparr>reply_data = None, reply_error = Some (Error ''offline'')\<rparr>) = []"
  using fetchItems_failure_empties_view
    [of "sample_state [sample_item ''a'' False ''2024-01-01T10:00:00Z'']" None "Error ''offline''"]
  by (simp add: sample_state_def)

text \<open>
  C10. After a successful \<open>updateItem\<close> or \<open>toggleItem\<close>, every record that had the given
  id is the mapped reply row, whose \<open>createdBy\<close> and \<open>createdByName\<close> are undefined, whatever
  they were before. The literals of \<open>fetchItems\<close> and \<open>addItem\<close> do carry the creator's id
  and display name when the row has them.
\<close>

theorem update_and_toggle_drop_provenance:
  "(\<forall>k<length (items st). item_id (items st ! k) = itemId \<longrightarrow>
       items (fst (updateItem_finish st itemId \<lparr>reply_data = Some d, reply_error = None\<rparr>)) ! k
         = mappedItem d
       \<and> items (fst (toggleItem_finish st itemId \<lparr>reply_data = Some d, reply_error = None\<rparr>)) ! k
         = mappedItem d)
   \<and> createdBy (mappedItem d) = None \<and> createdByName (mappedItem d) = None
   \<and> (created_by d = Some u \<and> u \<noteq> [] \<longrightarrow>
        createdBy (mappedItems_entry d) = Some u \<and> createdBy (newItem d nm) = Some u)
   \<and> (profile_display_name d = Some n \<and> n \<noteq> [] \<longrightarrow>
        createdByName (mappedItems_entry d) = Some n \<and> createdByName (newItem d nm) = Some n)"
  by (simp add: updateItem_finish_def toggleItem_finish_def mappedItem_def mappedItems_entry_def
      newItem_def or_else_def)

theorem update_and_toggle_drop_provenance_witness:
  "(0::nat) < length (items sample_ab) \<and> item_id (items sample_ab ! 0) = ''a''
   \<and> createdBy (items sample_ab ! 0) = Some ''u1''
   \<and> createdByName (items sample_ab ! 0) = Some ''Ann''
   \<and> createdBy (items (fst (toggleItem_finish sample_ab ''a''
        \<lparr>reply_data = Some (sample_row ''a'' True ''2024-01-04T10:00:00Z''),
          reply_error = None\<rparr>)) ! 0) = None
   \<and> createdByName (items (fst (updateItem_finish sample_ab ''a''
        \<lparr>reply_data = Some (sample_row ''a'' True ''2024-01-04T10:00:00Z''),
          reply_error = None\<rparr>)) ! 0) = None
   \<and> created_by (sample_row ''a'' True ''2024-01-04T10:00:00Z'') = Some ''u1''
   \<and> createdBy (newItem (sample_row ''a'' True ''2024-01-04T10:00:00Z'') None) = Some ''u1''"
  using update_and_toggle_drop_provenance [where st = sample_ab and itemId = "''a''"
      and d = "sample_row ''a'' True ''2024-01-04T10:00:00Z''" and u = "''u1''" and nm = None]
  by (simp add: sample_ab_def sample_defs updateItem_finish_def toggleItem_finish_def
      newItem_def)

end
